theory Spec2Isabelle
  imports Main "HOL-Library.Word"
begin

section \<open>Intrusive reference counting (Jolt/Core/Reference.h)\<close>

text \<open>
  The header declares a counted base class \<open>RefTarget<T>\<close> and two handle classes,
  \<open>Ref<T>\<close> and \<open>RefConst<T>\<close>. Objects live in a store that maps an address to the
  object living there; a pointer is an optional address, \<open>None\<close> being \<open>nullptr\<close>.
  A member call through a pointer at which no object lives is undefined behaviour in
  C++; the model makes it the error \<open>InvalidAccess\<close>. The counter is
  \<open>atomic<uint32>\<close>; the model is sequential, so each atomic read-modify-write is one
  step on a 32-bit word.
\<close>

subsection \<open>Data model\<close>

type_synonym uint32 = "32 word"
type_synonym addr = nat
type_synonym ptr = "addr option"

datatype error = AssertFailed | InvalidAccess

record RefTarget =
  mRefCount :: uint32

type_synonym heap = "addr \<rightharpoonup> RefTarget"

definition cEmbedded :: uint32 where
  "cEmbedded = 0x0ebedded"

text \<open>
  Modelled from the spec: the macro \<open>JPH_ASSERT\<close> is declared outside Reference.h.
  The spec calls a violated assertion a fatal diagnostic that stops the operation
  rather than proceeding, so a false condition is the error \<open>AssertFailed\<close>.
\<close>

definition JPH_ASSERT :: "bool \<Rightarrow> error + unit" where
  "JPH_ASSERT inExpression = (if inExpression then Inr () else Inl AssertFailed)"

subsection \<open>RefTarget\<close>

definition RefTarget_ctor :: "heap \<Rightarrow> addr \<Rightarrow> heap" where
  "RefTarget_ctor h this = h(this \<mapsto> \<lparr>mRefCount = 0\<rparr>)"

text \<open>The copy constructor never reads \<open>inRHS\<close>.\<close>

definition RefTarget_copy_ctor ::
  "heap \<Rightarrow> addr \<Rightarrow> addr \<Rightarrow> heap" where
  "RefTarget_copy_ctor h this inRHS = h(this \<mapsto> \<lparr>mRefCount = 0\<rparr>)"

text \<open>The destructor checks its assertion and ends the lifetime of the object.\<close>

definition RefTarget_dtor :: "heap \<Rightarrow> addr \<Rightarrow> error + heap" where
  "RefTarget_dtor h this =
     (case h this of
        None \<Rightarrow> Inl InvalidAccess
      | Some obj \<Rightarrow>
          (case JPH_ASSERT (mRefCount obj = 0 \<or> mRefCount obj = cEmbedded) of
             Inl e \<Rightarrow> Inl e
           | Inr _ \<Rightarrow> Inr (h(this := None))))"

definition SetEmbedded :: "heap \<Rightarrow> addr \<Rightarrow> error + heap" where
  "SetEmbedded h this =
     (case h this of
        None \<Rightarrow> Inl InvalidAccess
      | Some obj \<Rightarrow>
          (case JPH_ASSERT (mRefCount obj < cEmbedded) of
             Inl e \<Rightarrow> Inl e
           | Inr _ \<Rightarrow> Inr (h(this \<mapsto> obj\<lparr>mRefCount := mRefCount obj + cEmbedded\<rparr>))))"

text \<open>\<open>operator =\<close> returns \<open>*this\<close> and touches neither operand.\<close>

definition RefTarget_assign ::
  "heap \<Rightarrow> addr \<Rightarrow> addr \<Rightarrow> heap" where
  "RefTarget_assign h this inRHS = h"

definition GetRefCount :: "heap \<Rightarrow> addr \<Rightarrow> error + uint32" where
  "GetRefCount h this =
     (case h this of None \<Rightarrow> Inl InvalidAccess | Some obj \<Rightarrow> Inr (mRefCount obj))"

definition RefTarget_AddRef :: "heap \<Rightarrow> addr \<Rightarrow> error + heap" where
  "RefTarget_AddRef h this =
     (case h this of
        None \<Rightarrow> Inl InvalidAccess
      | Some obj \<Rightarrow> Inr (h(this \<mapsto> obj\<lparr>mRefCount := mRefCount obj + 1\<rparr>)))"

text \<open>
  \<open>delete static_cast<const T *>(this)\<close> destroys the object as a \<open>T\<close>: first the
  destructor of \<open>T\<close> runs (its body and the destructors of its members, for instance
  the \<open>Release\<close> that a member handle performs on another object), then the destructor
  of the \<open>RefTarget\<close> base, and the object is gone. The derived class \<open>T\<close> is not part
  of the header, so what its destructor does to the store is a parameter, \<open>T_dtor\<close>, of
  every operation that can reach the \<open>delete\<close>. It is applied at the address of the
  object, to the store in which the counter of that object is already 0.
\<close>

type_synonym dtor = "heap \<Rightarrow> addr \<Rightarrow> error + heap"

definition delete_T ::
  "dtor \<Rightarrow> heap \<Rightarrow> addr \<Rightarrow> error + heap" where
  "delete_T T_dtor h this =
     (case T_dtor h this of Inl e \<Rightarrow> Inl e | Inr h1 \<Rightarrow> RefTarget_dtor h1 this)"

definition RefTarget_Release ::
  "dtor \<Rightarrow> heap \<Rightarrow> addr \<Rightarrow> error + heap" where
  "RefTarget_Release T_dtor h this =
     (case h this of
        None \<Rightarrow> Inl InvalidAccess
      | Some obj \<Rightarrow>
          (let h' = h(this \<mapsto> obj\<lparr>mRefCount := mRefCount obj - 1\<rparr>)
           in if mRefCount obj - 1 = 0 then delete_T T_dtor h' this else Inr h'))"

definition SetRefCountInternal ::
  "heap \<Rightarrow> addr \<Rightarrow> uint32 \<Rightarrow> error + heap" where
  "SetRefCountInternal h this inRefCount =
     (case h this of
        None \<Rightarrow> Inl InvalidAccess
      | Some obj \<Rightarrow>
          (case JPH_ASSERT (inRefCount \<ge> 0) of
             Inl e \<Rightarrow> Inl e
           | Inr _ \<Rightarrow> Inr (h(this \<mapsto> obj\<lparr>mRefCount := inRefCount\<rparr>))))"

subsection \<open>Clients of a counted object\<close>

text \<open>
  A client calls the members of one object, at address \<open>a\<close>, one after the other.
  A failed call (a tripped assertion, a call on a destroyed object) ends the sequence.
\<close>

datatype op = OpAddRef | OpRelease | OpSetEmbedded

fun step :: "dtor \<Rightarrow> heap \<Rightarrow> addr \<Rightarrow> op \<Rightarrow> error + heap" where
  "step T_dtor h a OpAddRef = RefTarget_AddRef h a"
| "step T_dtor h a OpRelease = RefTarget_Release T_dtor h a"
| "step T_dtor h a OpSetEmbedded = SetEmbedded h a"

fun run :: "dtor \<Rightarrow> heap \<Rightarrow> addr \<Rightarrow> op list \<Rightarrow> error + heap" where
  "run T_dtor h a [] = Inr h"
| "run T_dtor h a (x # xs) =
     (case step T_dtor h a x of Inl e \<Rightarrow> Inl e | Inr h' \<Rightarrow> run T_dtor h' a xs)"

subsection \<open>Ref\<close>

text \<open>
  A handle is a value holding one pointer. A member that changes a handle returns the
  new value of every handle it can write to, next to the new store: \<open>this\<close>, and for
  the move operations also \<open>inRHS\<close>. If \<open>this\<close> and \<open>inRHS\<close> are one and the same handle,
  their pointers are equal, and every assignment operator below then changes nothing.
\<close>

record Ref =
  mPtr :: ptr

definition Ref_AddRef :: "heap \<Rightarrow> Ref \<Rightarrow> error + heap" where
  "Ref_AddRef h this =
     (case Ref.mPtr this of None \<Rightarrow> Inr h | Some p \<Rightarrow> RefTarget_AddRef h p)"

definition Ref_Release ::
  "dtor \<Rightarrow> heap \<Rightarrow> Ref \<Rightarrow> error + heap" where
  "Ref_Release T_dtor h this =
     (case Ref.mPtr this of None \<Rightarrow> Inr h | Some p \<Rightarrow> RefTarget_Release T_dtor h p)"

definition Ref_ctor :: Ref where
  "Ref_ctor = \<lparr>Ref.mPtr = None\<rparr>"

definition Ref_ctor_ptr :: "heap \<Rightarrow> ptr \<Rightarrow> error + heap \<times> Ref" where
  "Ref_ctor_ptr h inRHS =
     (let this = \<lparr>Ref.mPtr = inRHS\<rparr>
      in case Ref_AddRef h this of Inl e \<Rightarrow> Inl e | Inr h' \<Rightarrow> Inr (h', this))"

definition Ref_copy_ctor :: "heap \<Rightarrow> Ref \<Rightarrow> error + heap \<times> Ref" where
  "Ref_copy_ctor h inRHS =
     (let this = \<lparr>Ref.mPtr = Ref.mPtr inRHS\<rparr>
      in case Ref_AddRef h this of Inl e \<Rightarrow> Inl e | Inr h' \<Rightarrow> Inr (h', this))"


definition Ref_dtor ::
  "dtor \<Rightarrow> heap \<Rightarrow> Ref \<Rightarrow> error + heap" where
  "Ref_dtor T_dtor h this = Ref_Release T_dtor h this"

definition Ref_assign_ptr ::
  "dtor \<Rightarrow> heap \<Rightarrow> Ref \<Rightarrow> ptr \<Rightarrow> error + heap \<times> Ref" where
  "Ref_assign_ptr T_dtor h this inRHS =
     (if Ref.mPtr this \<noteq> inRHS then
        (case Ref_Release T_dtor h this of
           Inl e \<Rightarrow> Inl e
         | Inr h1 \<Rightarrow>
             (let this1 = this\<lparr>Ref.mPtr := inRHS\<rparr>
              in case Ref_AddRef h1 this1 of Inl e \<Rightarrow> Inl e | Inr h2 \<Rightarrow> Inr (h2, this1)))
      else Inr (h, this))"

definition Ref_assign ::
  "dtor \<Rightarrow> heap \<Rightarrow> Ref \<Rightarrow> Ref \<Rightarrow> error + heap \<times> Ref" where
  "Ref_assign T_dtor h this inRHS =
     (if Ref.mPtr this \<noteq> Ref.mPtr inRHS then
        (case Ref_Release T_dtor h this of
           Inl e \<Rightarrow> Inl e
         | Inr h1 \<Rightarrow>
             (let this1 = this\<lparr>Ref.mPtr := Ref.mPtr inRHS\<rparr>
              in case Ref_AddRef h1 this1 of Inl e \<Rightarrow> Inl e | Inr h2 \<Rightarrow> Inr (h2, this1)))
      else Inr (h, this))"

definition Ref_move_assign ::
  "dtor \<Rightarrow> heap \<Rightarrow> Ref \<Rightarrow> Ref \<Rightarrow> error + heap \<times> Ref \<times> Ref" where
  "Ref_move_assign T_dtor h this inRHS =
     (if Ref.mPtr this \<noteq> Ref.mPtr inRHS then
        (case Ref_Release T_dtor h this of
           Inl e \<Rightarrow> Inl e
         | Inr h1 \<Rightarrow>
             Inr (h1, this\<lparr>Ref.mPtr := Ref.mPtr inRHS\<rparr>, inRHS\<lparr>Ref.mPtr := None\<rparr>))
      else Inr (h, this, inRHS))"

definition Ref_eq_ptr :: "Ref \<Rightarrow> ptr \<Rightarrow> bool" where
  "Ref_eq_ptr this inRHS = (Ref.mPtr this = inRHS)"

definition Ref_eq :: "Ref \<Rightarrow> Ref \<Rightarrow> bool" where
  "Ref_eq this inRHS = (Ref.mPtr this = Ref.mPtr inRHS)"

definition Ref_ne_ptr :: "Ref \<Rightarrow> ptr \<Rightarrow> bool" where
  "Ref_ne_ptr this inRHS = (Ref.mPtr this \<noteq> inRHS)"

definition Ref_ne :: "Ref \<Rightarrow> Ref \<Rightarrow> bool" where
  "Ref_ne this inRHS = (Ref.mPtr this \<noteq> Ref.mPtr inRHS)"

definition Ref_GetPtr :: "Ref \<Rightarrow> ptr" where
  "Ref_GetPtr this = Ref.mPtr this"

subsection \<open>RefConst\<close>

record RefConst =
  mPtr :: ptr

definition RefConst_AddRef :: "heap \<Rightarrow> RefConst \<Rightarrow> error + heap" where
  "RefConst_AddRef h this =
     (case RefConst.mPtr this of None \<Rightarrow> Inr h | Some p \<Rightarrow> RefTarget_AddRef h p)"

definition RefConst_Release ::
  "dtor \<Rightarrow> heap \<Rightarrow> RefConst \<Rightarrow> error + heap" where
  "RefConst_Release T_dtor h this =
     (case RefConst.mPtr this of None \<Rightarrow> Inr h | Some p \<Rightarrow> RefTarget_Release T_dtor h p)"

definition RefConst_ctor :: RefConst where
  "RefConst_ctor = \<lparr>RefConst.mPtr = None\<rparr>"

definition RefConst_ctor_ptr ::
  "heap \<Rightarrow> ptr \<Rightarrow> error + heap \<times> RefConst" where
  "RefConst_ctor_ptr h inRHS =
     (let this = \<lparr>RefConst.mPtr = inRHS\<rparr>
      in case RefConst_AddRef h this of Inl e \<Rightarrow> Inl e | Inr h' \<Rightarrow> Inr (h', this))"

definition RefConst_copy_ctor ::
  "heap \<Rightarrow> RefConst \<Rightarrow> error + heap \<times> RefConst" where
  "RefConst_copy_ctor h inRHS =
     (let this = \<lparr>RefConst.mPtr = RefConst.mPtr inRHS\<rparr>
      in case RefConst_AddRef h this of Inl e \<Rightarrow> Inl e | Inr h' \<Rightarrow> Inr (h', this))"


definition RefConst_copy_ctor_Ref ::
  "heap \<Rightarrow> Ref \<Rightarrow> error + heap \<times> RefConst" where
  "RefConst_copy_ctor_Ref h inRHS =
     (let this = \<lparr>RefConst.mPtr = Ref.mPtr inRHS\<rparr>
      in case RefConst_AddRef h this of Inl e \<Rightarrow> Inl e | Inr h' \<Rightarrow> Inr (h', this))"


definition RefConst_dtor ::
  "dtor \<Rightarrow> heap \<Rightarrow> RefConst \<Rightarrow> error + heap" where
  "RefConst_dtor T_dtor h this = RefConst_Release T_dtor h this"

definition RefConst_assign_ptr ::
  "dtor \<Rightarrow> heap \<Rightarrow> RefConst \<Rightarrow> ptr \<Rightarrow> error + heap \<times> RefConst" where
  "RefConst_assign_ptr T_dtor h this inRHS =
     (if RefConst.mPtr this \<noteq> inRHS then
        (case RefConst_Release T_dtor h this of
           Inl e \<Rightarrow> Inl e
         | Inr h1 \<Rightarrow>
             (let this1 = this\<lparr>RefConst.mPtr := inRHS\<rparr>
              in case RefConst_AddRef h1 this1 of
                   Inl e \<Rightarrow> Inl e
                 | Inr h2 \<Rightarrow> Inr (h2, this1)))
      else Inr (h, this))"

definition RefConst_assign ::
  "dtor \<Rightarrow> heap \<Rightarrow> RefConst \<Rightarrow> RefConst \<Rightarrow> error + heap \<times> RefConst" where
  "RefConst_assign T_dtor h this inRHS =
     (if RefConst.mPtr this \<noteq> RefConst.mPtr inRHS then
        (case RefConst_Release T_dtor h this of
           Inl e \<Rightarrow> Inl e
         | Inr h1 \<Rightarrow>
             (let this1 = this\<lparr>RefConst.mPtr := RefConst.mPtr inRHS\<rparr>
              in case RefConst_AddRef h1 this1 of
                   Inl e \<Rightarrow> Inl e
                 | Inr h2 \<Rightarrow> Inr (h2, this1)))
      else Inr (h, this))"

definition RefConst_move_assign ::
  "dtor \<Rightarrow> heap \<Rightarrow> RefConst \<Rightarrow> RefConst \<Rightarrow> error + heap \<times> RefConst \<times> RefConst" where
  "RefConst_move_assign T_dtor h this inRHS =
     (if RefConst.mPtr this \<noteq> RefConst.mPtr inRHS then
        (case RefConst_Release T_dtor h this of
           Inl e \<Rightarrow> Inl e
         | Inr h1 \<Rightarrow>
             Inr (h1, this\<lparr>RefConst.mPtr := RefConst.mPtr inRHS\<rparr>,
                  inRHS\<lparr>RefConst.mPtr := None\<rparr>))
      else Inr (h, this, inRHS))"

definition RefConst_assign_Ref ::
  "dtor \<Rightarrow> heap \<Rightarrow> RefConst \<Rightarrow> Ref \<Rightarrow> error + heap \<times> RefConst" where
  "RefConst_assign_Ref T_dtor h this inRHS =
     (if RefConst.mPtr this \<noteq> Ref.mPtr inRHS then
        (case RefConst_Release T_dtor h this of
           Inl e \<Rightarrow> Inl e
         | Inr h1 \<Rightarrow>
             (let this1 = this\<lparr>RefConst.mPtr := Ref.mPtr inRHS\<rparr>
              in case RefConst_AddRef h1 this1 of
                   Inl e \<Rightarrow> Inl e
                 | Inr h2 \<Rightarrow> Inr (h2, this1)))
      else Inr (h, this))"

definition RefConst_move_assign_Ref ::
  "dtor \<Rightarrow> heap \<Rightarrow> RefConst \<Rightarrow> Ref \<Rightarrow> error + heap \<times> RefConst \<times> Ref" where
  "RefConst_move_assign_Ref T_dtor h this inRHS =
     (if RefConst.mPtr this \<noteq> Ref.mPtr inRHS then
        (case RefConst_Release T_dtor h this of
           Inl e \<Rightarrow> Inl e
         | Inr h1 \<Rightarrow>
             Inr (h1, this\<lparr>RefConst.mPtr := Ref.mPtr inRHS\<rparr>, inRHS\<lparr>Ref.mPtr := None\<rparr>))
      else Inr (h, this, inRHS))"

definition RefConst_eq_ptr :: "RefConst \<Rightarrow> ptr \<Rightarrow> bool" where
  "RefConst_eq_ptr this inRHS = (RefConst.mPtr this = inRHS)"

definition RefConst_eq :: "RefConst \<Rightarrow> RefConst \<Rightarrow> bool" where
  "RefConst_eq this inRHS = (RefConst.mPtr this = RefConst.mPtr inRHS)"

definition RefConst_eq_Ref :: "RefConst \<Rightarrow> Ref \<Rightarrow> bool" where
  "RefConst_eq_Ref this inRHS = (RefConst.mPtr this = Ref.mPtr inRHS)"

definition RefConst_ne_ptr :: "RefConst \<Rightarrow> ptr \<Rightarrow> bool" where
  "RefConst_ne_ptr this inRHS = (RefConst.mPtr this \<noteq> inRHS)"

definition RefConst_ne :: "RefConst \<Rightarrow> RefConst \<Rightarrow> bool" where
  "RefConst_ne this inRHS = (RefConst.mPtr this \<noteq> RefConst.mPtr inRHS)"

definition RefConst_ne_Ref :: "RefConst \<Rightarrow> Ref \<Rightarrow> bool" where
  "RefConst_ne_Ref this inRHS = (RefConst.mPtr this \<noteq> Ref.mPtr inRHS)"

definition RefConst_GetPtr :: "RefConst \<Rightarrow> ptr" where
  "RefConst_GetPtr this = RefConst.mPtr this"

subsection \<open>Hashing\<close>

text \<open>
  \<open>std::hash<T *>\<close> and \<open>std::hash<const T *>\<close> belong to the standard library; they are
  parameters here, any functions from pointers to hash values.
\<close>

definition hash_Ref :: "(ptr \<Rightarrow> 'size_t) \<Rightarrow> Ref \<Rightarrow> 'size_t" where
  "hash_Ref hash_ptr inRHS = hash_ptr (Ref_GetPtr inRHS)"

definition hash_RefConst ::
  "(ptr \<Rightarrow> 'size_t) \<Rightarrow> RefConst \<Rightarrow> 'size_t" where
  "hash_RefConst hash_const_ptr inRHS = hash_const_ptr (RefConst_GetPtr inRHS)"

section \<open>Properties\<close>

lemma cEmbedded_unat: "unat cEmbedded = 247389677"
  by (simp add: cEmbedded_def)

lemma minus_one_uint32: "(- 1 :: uint32) = 0xFFFFFFFF"
  by simp

lemma RefTarget_dtor_eq:
  "h this = Some obj \<Longrightarrow>
   RefTarget_dtor h this =
     (if mRefCount obj = 0 \<or> mRefCount obj = cEmbedded then Inr (h(this := None))
      else Inl AssertFailed)"
  by (simp add: RefTarget_dtor_def JPH_ASSERT_def)

lemma RefTarget_dtor_dead: "RefTarget_dtor h this = Inr h2 \<Longrightarrow> h2 this = None"
  by (cases "h this") (auto simp: RefTarget_dtor_def JPH_ASSERT_def split: if_splits)

lemma delete_T_dead: "delete_T T_dtor h this = Inr h2 \<Longrightarrow> h2 this = None"
  by (cases "T_dtor h this") (auto simp: delete_T_def dest: RefTarget_dtor_dead)

lemma RefTarget_Release_eq:
  "h this = Some obj \<Longrightarrow>
   RefTarget_Release T_dtor h this =
     (if mRefCount obj = 1 then delete_T T_dtor (h(this \<mapsto> obj\<lparr>mRefCount := 0\<rparr>)) this
      else Inr (h(this \<mapsto> obj\<lparr>mRefCount := mRefCount obj - 1\<rparr>)))"
  by (simp add: RefTarget_Release_def Let_def)

text \<open>A destructor of \<open>T\<close> that touches nothing: \<open>delete\<close> then only checks and removes.\<close>

lemma delete_T_no_members:
  "h this = Some obj \<Longrightarrow>
   delete_T (\<lambda>h this. Inr h) h this =
     (if mRefCount obj = 0 \<or> mRefCount obj = cEmbedded then Inr (h(this := None))
      else Inl AssertFailed)"
  by (simp add: delete_T_def RefTarget_dtor_eq)

text \<open>
  C1. \<open>Release()\<close> on a live object decrements the counter by one (modulo \<open>2^32\<close>).
  If the decremented value is not 0, the call returns the store changed in this
  counter only. If it is 0, the object is deleted as a \<open>T\<close>: the destructor of \<open>T\<close>
  runs on the store in which the counter is 0, then the destructor of the base. The
  object is absent from the store a returning \<open>Release()\<close> leaves exactly when the
  decremented value is 0; when the destructor of \<open>T\<close> returns with the counter still 0,
  the result is the store it left, without the object.
\<close>

theorem Release_decrements_and_destroys_at_zero:
  assumes "h this = Some obj"
  shows "RefTarget_Release T_dtor h this =
           (if mRefCount obj - 1 = 0
            then (case T_dtor (h(this \<mapsto> obj\<lparr>mRefCount := 0\<rparr>)) this of
                    Inl e \<Rightarrow> Inl e
                  | Inr h1 \<Rightarrow> RefTarget_dtor h1 this)
            else Inr (h(this \<mapsto> obj\<lparr>mRefCount := mRefCount obj - 1\<rparr>)))
         \<and> (\<forall>h2. RefTarget_Release T_dtor h this = Inr h2 \<longrightarrow>
               (h2 this = None) = (mRefCount obj - 1 = 0))
         \<and> (mRefCount obj - 1 = 0 \<and> T_dtor (h(this \<mapsto> obj\<lparr>mRefCount := 0\<rparr>)) this = Inr h1
              \<and> GetRefCount h1 this = Inr 0 \<longrightarrow>
             RefTarget_Release T_dtor h this = Inr (h1(this := None)))"
proof (intro conjI allI impI)
  show "RefTarget_Release T_dtor h this =
           (if mRefCount obj - 1 = 0
            then (case T_dtor (h(this \<mapsto> obj\<lparr>mRefCount := 0\<rparr>)) this of
                    Inl e \<Rightarrow> Inl e
                  | Inr h1 \<Rightarrow> RefTarget_dtor h1 this)
            else Inr (h(this \<mapsto> obj\<lparr>mRefCount := mRefCount obj - 1\<rparr>)))"
    using assms by (simp add: RefTarget_Release_eq delete_T_def)
next
  fix h2
  assume r: "RefTarget_Release T_dtor h this = Inr h2"
  show "(h2 this = None) = (mRefCount obj - 1 = 0)"
  proof (cases "mRefCount obj = 1")
    case True
    with assms r have "delete_T T_dtor (h(this \<mapsto> obj\<lparr>mRefCount := 0\<rparr>)) this = Inr h2"
      by (simp add: RefTarget_Release_eq)
    then have "h2 this = None" by (rule delete_T_dead)
    with True show ?thesis by simp
  next
    case False
    with assms r have "h2 = h(this \<mapsto> obj\<lparr>mRefCount := mRefCount obj - 1\<rparr>)"
      by (simp add: RefTarget_Release_eq)
    with False show ?thesis by simp
  qed
next
  assume a: "mRefCount obj - 1 = 0 \<and> T_dtor (h(this \<mapsto> obj\<lparr>mRefCount := 0\<rparr>)) this = Inr h1
              \<and> GetRefCount h1 this = Inr 0"
  then obtain o1 where "h1 this = Some o1" and "mRefCount o1 = 0"
    by (auto simp: GetRefCount_def split: option.splits)
  then have "RefTarget_dtor h1 this = Inr (h1(this := None))"
    by (simp add: RefTarget_dtor_eq)
  with a assms show "RefTarget_Release T_dtor h this = Inr (h1(this := None))"
    by (simp add: RefTarget_Release_eq delete_T_def)
qed

text \<open>
  In the first line of the witness the destructor of \<open>T\<close> is that of a type with a
  member handle, held by object 1 on object 2 and empty in object 2: destroying
  object 1 releases object 2, whose counter is 1, so both objects go.
\<close>

theorem Release_decrements_and_destroys_at_zero_witness:
  "RefTarget_Release
       (\<lambda>h this. if this = 1 then RefTarget_Release (\<lambda>h this. Inr h) h 2 else Inr h)
       (Map.empty(1 \<mapsto> \<lparr>mRefCount = 1\<rparr>, 2 \<mapsto> \<lparr>mRefCount = 1\<rparr>)) 1
     = Inr Map.empty
   \<and> RefTarget_Release (\<lambda>h this. Inr h)
       (Map.empty(5 \<mapsto> \<lparr>mRefCount = 1\<rparr>, 6 \<mapsto> \<lparr>mRefCount = 3\<rparr>)) 5
     = Inr (Map.empty(6 \<mapsto> \<lparr>mRefCount = 3\<rparr>))
   \<and> RefTarget_Release (\<lambda>h this. Inr h)
       (Map.empty(5 \<mapsto> \<lparr>mRefCount = 1\<rparr>, 6 \<mapsto> \<lparr>mRefCount = 3\<rparr>)) 6
     = Inr (Map.empty(5 \<mapsto> \<lparr>mRefCount = 1\<rparr>, 6 \<mapsto> \<lparr>mRefCount = 2\<rparr>))"
proof -
  have inner: "RefTarget_Release (\<lambda>h this. Inr h)
                 (Map.empty(1 \<mapsto> \<lparr>mRefCount = 0\<rparr>, 2 \<mapsto> \<lparr>mRefCount = 1\<rparr>)) 2
               = Inr (Map.empty(1 \<mapsto> \<lparr>mRefCount = 0\<rparr>))"
    by (simp add: RefTarget_Release_eq delete_T_no_members)
  have dead: "RefTarget_dtor (Map.empty(1 \<mapsto> \<lparr>mRefCount = 0\<rparr>)) 1 = Inr Map.empty"
    by (simp add: RefTarget_dtor_eq)
  note owner = Release_decrements_and_destroys_at_zero
      [where T_dtor = "\<lambda>h this. if this = 1 then RefTarget_Release (\<lambda>h this. Inr h) h 2 else Inr h"
         and h = "Map.empty(1 \<mapsto> \<lparr>mRefCount = 1\<rparr>, 2 \<mapsto> \<lparr>mRefCount = 1\<rparr>)"
         and this = 1 and obj = "\<lparr>mRefCount = 1\<rparr>"
         and ?h1.0 = "Map.empty(1 \<mapsto> \<lparr>mRefCount = 0\<rparr>)"]
  note zero = Release_decrements_and_destroys_at_zero
      [where T_dtor = "\<lambda>h this. Inr h"
         and h = "Map.empty(5 \<mapsto> \<lparr>mRefCount = 1\<rparr>, 6 \<mapsto> \<lparr>mRefCount = 3\<rparr>)"
         and this = 5 and obj = "\<lparr>mRefCount = 1\<rparr>"
         and ?h1.0 = "Map.empty(5 \<mapsto> \<lparr>mRefCount = 0\<rparr>, 6 \<mapsto> \<lparr>mRefCount = 3\<rparr>)"]
  note more = Release_decrements_and_destroys_at_zero
      [where T_dtor = "\<lambda>h this. Inr h"
         and h = "Map.empty(5 \<mapsto> \<lparr>mRefCount = 1\<rparr>, 6 \<mapsto> \<lparr>mRefCount = 3\<rparr>)"
         and this = 6 and obj = "\<lparr>mRefCount = 3\<rparr>"
         and ?h1.0 = "Map.empty"]
  have a: "RefTarget_Release
       (\<lambda>h this. if this = 1 then RefTarget_Release (\<lambda>h this. Inr h) h 2 else Inr h)
       (Map.empty(1 \<mapsto> \<lparr>mRefCount = 1\<rparr>, 2 \<mapsto> \<lparr>mRefCount = 1\<rparr>)) 1
     = Inr Map.empty"
    using owner inner dead by (simp add: fun_upd_twist)
  have b: "RefTarget_Release (\<lambda>h this. Inr h)
       (Map.empty(5 \<mapsto> \<lparr>mRefCount = 1\<rparr>, 6 \<mapsto> \<lparr>mRefCount = 3\<rparr>)) 5
     = Inr (Map.empty(6 \<mapsto> \<lparr>mRefCount = 3\<rparr>))"
    using zero by (simp add: RefTarget_dtor_eq fun_upd_twist)
  have c: "RefTarget_Release (\<lambda>h this. Inr h)
       (Map.empty(5 \<mapsto> \<lparr>mRefCount = 1\<rparr>, 6 \<mapsto> \<lparr>mRefCount = 3\<rparr>)) 6
     = Inr (Map.empty(5 \<mapsto> \<lparr>mRefCount = 1\<rparr>, 6 \<mapsto> \<lparr>mRefCount = 2\<rparr>))"
    using more by simp
  from a b c show ?thesis by simp
qed

lemma RefTarget_AddRef_eq:
  "h this = Some obj \<Longrightarrow>
   RefTarget_AddRef h this = Inr (h(this \<mapsto> obj\<lparr>mRefCount := mRefCount obj + 1\<rparr>))"
  by (simp add: RefTarget_AddRef_def)

lemma SetEmbedded_eq:
  "h this = Some obj \<Longrightarrow>
   SetEmbedded h this =
     (if mRefCount obj < cEmbedded
      then Inr (h(this \<mapsto> obj\<lparr>mRefCount := mRefCount obj + cEmbedded\<rparr>))
      else Inl AssertFailed)"
  by (simp add: SetEmbedded_def JPH_ASSERT_def)

text \<open>
  C9. \<open>Release()\<close> on a live object whose counter is 0 leaves the object in the store
  with the counter \<open>0xFFFFFFFF = 2^32 - 1\<close>; the call returns normally, so neither a
  destruction nor a diagnostic happens, whatever the destructor of \<open>T\<close> would do.
\<close>

theorem Release_at_zero_wraps:
  assumes "h this = Some obj" and "mRefCount obj = 0"
  shows "RefTarget_Release T_dtor h this = Inr (h(this \<mapsto> obj\<lparr>mRefCount := 0xFFFFFFFF\<rparr>))
         \<and> unat (0xFFFFFFFF :: uint32) = 2 ^ 32 - 1"
  using assms by (simp add: RefTarget_Release_eq minus_one_uint32)

theorem Release_at_zero_wraps_witness:
  "RefTarget_Release (\<lambda>h this. Inr h) (Map.empty(7 \<mapsto> \<lparr>mRefCount = 0\<rparr>)) 7
     = Inr (Map.empty(7 \<mapsto> \<lparr>mRefCount = 0xFFFFFFFF\<rparr>))"
  using Release_at_zero_wraps
          [of "Map.empty(7 \<mapsto> \<lparr>mRefCount = 0\<rparr>)" 7 "\<lparr>mRefCount = 0\<rparr>" "\<lambda>h this. Inr h"]
  by simp

text \<open>
  C10. On a live object \<open>SetRefCountInternal(v)\<close> stores exactly \<open>v\<close>, for every
  32-bit \<open>v\<close>: the guard \<open>inRefCount >= 0\<close> holds for every unsigned value, so the
  assertion never trips.
\<close>

theorem SetRefCountInternal_overwrites:
  assumes "h this = Some obj"
  shows "SetRefCountInternal h this v = Inr (h(this \<mapsto> obj\<lparr>mRefCount := v\<rparr>))
         \<and> JPH_ASSERT (v \<ge> 0) = Inr ()"
  using assms by (simp add: SetRefCountInternal_def JPH_ASSERT_def)

theorem SetRefCountInternal_overwrites_witness:
  "SetRefCountInternal (Map.empty(7 \<mapsto> \<lparr>mRefCount = 1\<rparr>)) 7 0xFFFFFFFF
     = Inr (Map.empty(7 \<mapsto> \<lparr>mRefCount = 0xFFFFFFFF\<rparr>))
   \<and> RefTarget_dtor (Map.empty(7 \<mapsto> \<lparr>mRefCount = 0xFFFFFFFF\<rparr>)) 7 = Inl AssertFailed"
  using SetRefCountInternal_overwrites
          [of "Map.empty(7 \<mapsto> \<lparr>mRefCount = 1\<rparr>)" 7 "\<lparr>mRefCount = 1\<rparr>" "0xFFFFFFFF"]
  by (simp add: RefTarget_dtor_eq cEmbedded_def)

text \<open>
  C6. Copy construction gives the new instance the counter 0 whatever the source
  holds, and changes no other object, the source included. Copy assignment leaves
  the whole store, so both operands, unchanged.
\<close>

theorem copy_never_touches_counters:
  "GetRefCount (RefTarget_copy_ctor h this inRHS) this = Inr 0
   \<and> (\<forall>b. b \<noteq> this \<longrightarrow> RefTarget_copy_ctor h this inRHS b = h b)
   \<and> RefTarget_assign h this inRHS = h"
  by (simp add: GetRefCount_def RefTarget_copy_ctor_def RefTarget_assign_def)

theorem copy_never_touches_counters_witness:
  "GetRefCount (RefTarget_copy_ctor (Map.empty(1 \<mapsto> \<lparr>mRefCount = 5\<rparr>)) 2 1) 2 = Inr 0
   \<and> GetRefCount (RefTarget_copy_ctor (Map.empty(1 \<mapsto> \<lparr>mRefCount = 5\<rparr>)) 2 1) 1 = Inr 5
   \<and> GetRefCount
       (RefTarget_assign (Map.empty(1 \<mapsto> \<lparr>mRefCount = 5\<rparr>, 2 \<mapsto> \<lparr>mRefCount = 3\<rparr>)) 2 1) 1 = Inr 5
   \<and> GetRefCount
       (RefTarget_assign (Map.empty(1 \<mapsto> \<lparr>mRefCount = 5\<rparr>, 2 \<mapsto> \<lparr>mRefCount = 3\<rparr>)) 2 1) 2 = Inr 3"
  using copy_never_touches_counters [of "Map.empty(1 \<mapsto> \<lparr>mRefCount = 5\<rparr>)" 2 1]
        copy_never_touches_counters
          [of "Map.empty(1 \<mapsto> \<lparr>mRefCount = 5\<rparr>, 2 \<mapsto> \<lparr>mRefCount = 3\<rparr>)" 2 1]
  by (simp add: GetRefCount_def)

lemma step_dead: "h a = None \<Longrightarrow> step T_dtor h a x = Inl InvalidAccess"
  by (cases x) (simp_all add: RefTarget_AddRef_def RefTarget_Release_def SetEmbedded_def)

lemma run_dead: "h a = None \<Longrightarrow> run T_dtor h a ops = Inr h' \<Longrightarrow> h' = h"
  by (cases ops) (simp_all add: step_dead)

text \<open>One successful call either destroys the object or moves its counter.\<close>

lemma step_counter:
  assumes "h a = Some obj" and "step T_dtor h a x = Inr h1"
  shows "h1 a = None \<or>
         h1 a = Some (obj\<lparr>mRefCount := mRefCount obj
                    + (case x of OpAddRef \<Rightarrow> 1 | OpRelease \<Rightarrow> - 1 | OpSetEmbedded \<Rightarrow> cEmbedded)\<rparr>)"
  using assms
  by (cases x) (auto simp: RefTarget_AddRef_eq RefTarget_Release_eq SetEmbedded_eq split: if_splits dest: delete_T_dead)

lemma run_counter:
  "h a = Some obj \<Longrightarrow> run T_dtor h a ops = Inr h' \<Longrightarrow> h' a = Some obj' \<Longrightarrow>
   mRefCount obj' = mRefCount obj + of_nat (count_list ops OpAddRef)
                    - of_nat (count_list ops OpRelease)
                    + of_nat (count_list ops OpSetEmbedded) * cEmbedded"
proof (induction ops arbitrary: h obj)
  case Nil
  then show ?case by simp
next
  case (Cons x xs)
  from Cons.prems(2) obtain h1 where s: "step T_dtor h a x = Inr h1" and r: "run T_dtor h1 a xs = Inr h'"
    by (auto split: sum.splits)
  from step_counter [OF Cons.prems(1) s] show ?case
  proof
    assume "h1 a = None"
    from run_dead [OF this r] have "h' = h1" .
    with \<open>h1 a = None\<close> Cons.prems(3) show ?thesis by simp
  next
    assume h1: "h1 a = Some (obj\<lparr>mRefCount := mRefCount obj
                    + (case x of OpAddRef \<Rightarrow> 1 | OpRelease \<Rightarrow> - 1 | OpSetEmbedded \<Rightarrow> cEmbedded)\<rparr>)"
    from Cons.IH [OF h1 r Cons.prems(3)] show ?thesis
      by (cases x) (simp_all add: algebra_simps)
  qed
qed

lemma unat_add_cEmbedded:
  assumes "c < cEmbedded"
  shows "unat (c + cEmbedded) = unat c + unat cEmbedded"
proof -
  from assms have "unat c < 247389677"
    by (simp add: word_less_nat_alt cEmbedded_unat)
  then have "unat c + unat cEmbedded < 2 ^ LENGTH(32)"
    by (simp add: cEmbedded_unat)
  then show ?thesis by (simp only: unat_add_lem)
qed

lemma unat_pred: "c \<noteq> 0 \<Longrightarrow> unat (c - 1 :: uint32) = unat c - 1"
  by (rule unat_minus_one)

lemma run_Release_above_bias:
  "h a = Some obj \<Longrightarrow> unat cEmbedded + k \<le> unat (mRefCount obj) \<Longrightarrow>
   \<exists>obj'. run T_dtor h a (replicate k OpRelease) = Inr (h(a \<mapsto> obj'))
     \<and> unat (mRefCount obj') = unat (mRefCount obj) - k"
proof (induction k arbitrary: h obj)
  case 0
  then have "h(a \<mapsto> obj) = h" by (simp add: fun_upd_idem)
  then show ?case by (intro exI [of _ obj]) simp
next
  case (Suc k)
  let ?obj1 = "obj\<lparr>mRefCount := mRefCount obj - 1\<rparr>"
  let ?h1 = "h(a \<mapsto> ?obj1)"
  from Suc.prems(2) have big: "1 < unat (mRefCount obj)"
    by (simp add: cEmbedded_unat)
  then have ne1: "mRefCount obj \<noteq> 1" and ne0: "mRefCount obj \<noteq> 0"
    by auto
  from ne0 have u1: "unat (mRefCount ?obj1) = unat (mRefCount obj) - 1"
    by (simp add: unat_pred)
  have s: "RefTarget_Release T_dtor h a = Inr ?h1"
    using Suc.prems(1) ne1 by (simp add: RefTarget_Release_eq)
  have "?h1 a = Some ?obj1" by simp
  moreover have "unat cEmbedded + k \<le> unat (mRefCount ?obj1)"
    using Suc.prems(2) u1 by simp
  ultimately obtain obj' where
    r: "run T_dtor ?h1 a (replicate k OpRelease) = Inr (?h1(a \<mapsto> obj'))"
    and c: "unat (mRefCount obj') = unat (mRefCount ?obj1) - k"
    using Suc.IH by blast
  have "run T_dtor h a (replicate (Suc k) OpRelease) = Inr (h(a \<mapsto> obj'))"
    using s r by simp
  moreover have "unat (mRefCount obj') = unat (mRefCount obj) - Suc k"
    using c u1 by simp
  ultimately show ?case by blast
qed

text \<open>
  C3. The destructor of \<open>RefTarget\<close> passes exactly when the counter is 0 or
  \<open>cEmbedded\<close>; every other value is the fatal diagnostic. Take an object from its
  construction through any sequence of calls in which \<open>AddRef\<close> and \<open>Release\<close> occur
  equally often and \<open>SetEmbedded\<close> at most once: if every call returned and the object
  still exists, its destructor passes. In a destruction that \<open>Release\<close> itself
  performs, the destructor of the base sees the counter 0: if the destructor of \<open>T\<close>
  raises no diagnostic of its own and leaves this object as it is, \<open>Release\<close> raises
  none.
\<close>

theorem destructor_assertion:
  "(h this = Some obj \<longrightarrow>
      RefTarget_dtor h this =
        (if mRefCount obj = 0 \<or> mRefCount obj = cEmbedded then Inr (h(this := None))
         else Inl AssertFailed))
   \<and> (count_list ops OpAddRef = count_list ops OpRelease \<and> count_list ops OpSetEmbedded \<le> 1
        \<and> run T_dtor (RefTarget_ctor h0 a) a ops = Inr h' \<and> h' a \<noteq> None \<longrightarrow>
      RefTarget_dtor h' a = Inr (h'(a := None)))
   \<and> ((\<forall>h'. T_dtor h' this \<noteq> Inl AssertFailed)
        \<and> (\<forall>h' h1. T_dtor h' this = Inr h1 \<longrightarrow> h1 this = h' this) \<longrightarrow>
      RefTarget_Release T_dtor h this \<noteq> Inl AssertFailed)"
proof (intro conjI impI)
  assume "h this = Some obj"
  then show "RefTarget_dtor h this =
        (if mRefCount obj = 0 \<or> mRefCount obj = cEmbedded then Inr (h(this := None))
         else Inl AssertFailed)"
    by (rule RefTarget_dtor_eq)
next
  assume a: "count_list ops OpAddRef = count_list ops OpRelease \<and> count_list ops OpSetEmbedded \<le> 1
        \<and> run T_dtor (RefTarget_ctor h0 a) a ops = Inr h' \<and> h' a \<noteq> None"
  then obtain obj' where o: "h' a = Some obj'" by auto
  have c: "RefTarget_ctor h0 a a = Some \<lparr>mRefCount = 0\<rparr>"
    by (simp add: RefTarget_ctor_def)
  from a have r: "run T_dtor (RefTarget_ctor h0 a) a ops = Inr h'" by simp
  from run_counter [OF c r o] a
  have "mRefCount obj' = of_nat (count_list ops OpSetEmbedded) * cEmbedded"
    by simp
  moreover from a have "count_list ops OpSetEmbedded = 0 \<or> count_list ops OpSetEmbedded = 1"
    by linarith
  ultimately have "mRefCount obj' = 0 \<or> mRefCount obj' = cEmbedded"
    by auto
  with o show "RefTarget_dtor h' a = Inr (h'(a := None))"
    by (simp add: RefTarget_dtor_eq)
next
  assume f: "(\<forall>h'. T_dtor h' this \<noteq> Inl AssertFailed)
        \<and> (\<forall>h' h1. T_dtor h' this = Inr h1 \<longrightarrow> h1 this = h' this)"
  show "RefTarget_Release T_dtor h this \<noteq> Inl AssertFailed"
  proof (cases "h this")
    case None
    then show ?thesis by (simp add: RefTarget_Release_def)
  next
    case (Some obj)
    let ?h0 = "h(this \<mapsto> obj\<lparr>mRefCount := 0\<rparr>)"
    have "delete_T T_dtor ?h0 this \<noteq> Inl AssertFailed"
    proof (cases "T_dtor ?h0 this")
      case (Inl e)
      with f have "e \<noteq> AssertFailed" by auto
      with Inl show ?thesis by (simp add: delete_T_def)
    next
      case (Inr h1)
      with f have "h1 this = ?h0 this" by blast
      then have "RefTarget_dtor h1 this = Inr (h1(this := None))"
        by (simp add: RefTarget_dtor_eq)
      with Inr show ?thesis by (simp add: delete_T_def)
    qed
    with Some show ?thesis by (simp add: RefTarget_Release_eq)
  qed
qed

text \<open>
  In the last line of the witness object 1 holds a member handle on object 2: its
  destructor releases object 2 and leaves object 1 alone.
\<close>

theorem destructor_assertion_witness:
  "run (\<lambda>h this. Inr h) (RefTarget_ctor Map.empty 1) 1
       [OpAddRef, OpSetEmbedded, OpAddRef, OpRelease, OpRelease]
     = Inr (Map.empty(1 \<mapsto> \<lparr>mRefCount = cEmbedded\<rparr>))
   \<and> RefTarget_dtor (Map.empty(1 \<mapsto> \<lparr>mRefCount = cEmbedded\<rparr>)) 1 = Inr Map.empty
   \<and> RefTarget_dtor (Map.empty(1 \<mapsto> \<lparr>mRefCount = 2\<rparr>)) 1 = Inl AssertFailed
   \<and> RefTarget_Release (\<lambda>h this. Inr h) (Map.empty(1 \<mapsto> \<lparr>mRefCount = 1\<rparr>)) 1
       \<noteq> Inl AssertFailed
   \<and> RefTarget_Release
         (\<lambda>h this. if this = 1 then RefTarget_Release (\<lambda>h this. Inr h) h 2 else Inr h)
         (Map.empty(1 \<mapsto> \<lparr>mRefCount = 1\<rparr>, 2 \<mapsto> \<lparr>mRefCount = 1\<rparr>)) 1
       \<noteq> Inl AssertFailed"
proof -
  let ?own = "\<lambda>h this. if this = 1 then RefTarget_Release (\<lambda>h this. Inr h) h 2 else Inr h"
  have r: "run (\<lambda>h this. Inr h) (RefTarget_ctor Map.empty 1) 1
             [OpAddRef, OpSetEmbedded, OpAddRef, OpRelease, OpRelease]
     = Inr (Map.empty(1 \<mapsto> \<lparr>mRefCount = cEmbedded\<rparr>))"
    by (simp add: RefTarget_ctor_def RefTarget_AddRef_eq RefTarget_Release_eq SetEmbedded_eq
        cEmbedded_def)
  have quiet: "?own h' 1 \<noteq> Inl AssertFailed" for h'
    by (cases "h' 2")
       (simp add: RefTarget_Release_def, simp add: RefTarget_Release_eq delete_T_no_members)
  have frame: "h1 1 = h' 1" if "?own h' 1 = Inr h1" for h' h1
    using that
    by (cases "h' 2")
       (simp add: RefTarget_Release_def,
        auto simp: RefTarget_Release_eq delete_T_no_members split: if_splits)
  from destructor_assertion
         [where T_dtor = "\<lambda>h this. Inr h"
            and ops = "[OpAddRef, OpSetEmbedded, OpAddRef, OpRelease, OpRelease]"
            and ?h0.0 = Map.empty and a = 1 and h' = "Map.empty(1 \<mapsto> \<lparr>mRefCount = cEmbedded\<rparr>)"
            and h = "Map.empty(1 \<mapsto> \<lparr>mRefCount = 2\<rparr>)" and this = 1 and obj = "\<lparr>mRefCount = 2\<rparr>"]
       r
  have a: "RefTarget_dtor (Map.empty(1 \<mapsto> \<lparr>mRefCount = cEmbedded\<rparr>)) 1 = Inr Map.empty"
    and b: "RefTarget_dtor (Map.empty(1 \<mapsto> \<lparr>mRefCount = 2\<rparr>)) 1 = Inl AssertFailed"
    by (simp_all add: cEmbedded_def)
  from destructor_assertion
         [where T_dtor = "\<lambda>h this. Inr h" and ops = "[]" and ?h0.0 = Map.empty and a = 1
            and h' = "Map.empty(1 \<mapsto> \<lparr>mRefCount = 0\<rparr>)"
            and h = "Map.empty(1 \<mapsto> \<lparr>mRefCount = 1\<rparr>)" and this = 1 and obj = "\<lparr>mRefCount = 1\<rparr>"]
  have c: "RefTarget_Release (\<lambda>h this. Inr h) (Map.empty(1 \<mapsto> \<lparr>mRefCount = 1\<rparr>)) 1
             \<noteq> Inl AssertFailed"
    by simp
  from destructor_assertion
         [where T_dtor = ?own and ops = "[]" and ?h0.0 = Map.empty and a = 1
            and h' = "Map.empty(1 \<mapsto> \<lparr>mRefCount = 0\<rparr>)"
            and h = "Map.empty(1 \<mapsto> \<lparr>mRefCount = 1\<rparr>, 2 \<mapsto> \<lparr>mRefCount = 1\<rparr>)"
            and this = 1 and obj = "\<lparr>mRefCount = 1\<rparr>"]
       quiet frame
  have d: "RefTarget_Release ?own
             (Map.empty(1 \<mapsto> \<lparr>mRefCount = 1\<rparr>, 2 \<mapsto> \<lparr>mRefCount = 1\<rparr>)) 1
             \<noteq> Inl AssertFailed"
    by blast
  from r a b c d show ?thesis by (intro conjI)
qed

lemma SetEmbedded_result:
  assumes "h this = Some obj" and "SetEmbedded h this = Inr h1"
  shows "mRefCount obj < cEmbedded"
    and "h1 = h(this \<mapsto> obj\<lparr>mRefCount := mRefCount obj + cEmbedded\<rparr>)"
    and "unat (mRefCount obj + cEmbedded) = unat (mRefCount obj) + unat cEmbedded"
proof -
  from assms show lt: "mRefCount obj < cEmbedded"
    by (simp add: SetEmbedded_eq split: if_splits)
  from assms show "h1 = h(this \<mapsto> obj\<lparr>mRefCount := mRefCount obj + cEmbedded\<rparr>)"
    by (simp add: SetEmbedded_eq split: if_splits)
  from lt show "unat (mRefCount obj + cEmbedded) = unat (mRefCount obj) + unat cEmbedded"
    by (rule unat_add_cEmbedded)
qed

lemma SetEmbedded_live: "SetEmbedded h this = Inr h1 \<Longrightarrow> \<exists>obj. h this = Some obj"
  by (cases "h this") (simp_all add: SetEmbedded_def)

text \<open>
  C4. \<open>SetEmbedded()\<close> passes its assertion exactly while the counter is below
  \<open>cEmbedded\<close>, and then adds \<open>cEmbedded\<close> to it. A second call right after a
  successful one trips the assertion. After a successful call on a counter that held
  \<open>n\<close> references, any \<open>k \<le> n\<close> calls of \<open>Release()\<close> return with the object still
  in the store and its counter at or above \<open>cEmbedded\<close>, so not 0, and a further
  \<open>SetEmbedded()\<close> there trips the assertion as well.
\<close>

theorem SetEmbedded_adds_bias_once:
  "(h this = Some obj \<longrightarrow>
      SetEmbedded h this =
        (if mRefCount obj < cEmbedded
         then Inr (h(this \<mapsto> obj\<lparr>mRefCount := mRefCount obj + cEmbedded\<rparr>))
         else Inl AssertFailed))
   \<and> (SetEmbedded h this = Inr h1 \<longrightarrow> SetEmbedded h1 this = Inl AssertFailed)
   \<and> (h this = Some obj \<and> SetEmbedded h this = Inr h1 \<and> k \<le> unat (mRefCount obj) \<longrightarrow>
        (\<exists>obj'. run T_dtor h1 this (replicate k OpRelease) = Inr (h1(this \<mapsto> obj'))
           \<and> cEmbedded \<le> mRefCount obj' \<and> mRefCount obj' \<noteq> 0
           \<and> SetEmbedded (h1(this \<mapsto> obj')) this = Inl AssertFailed))"
proof (intro conjI impI)
  assume "h this = Some obj"
  then show "SetEmbedded h this =
        (if mRefCount obj < cEmbedded
         then Inr (h(this \<mapsto> obj\<lparr>mRefCount := mRefCount obj + cEmbedded\<rparr>))
         else Inl AssertFailed)"
    by (rule SetEmbedded_eq)
next
  assume s: "SetEmbedded h this = Inr h1"
  then obtain o0 where o0: "h this = Some o0"
    using SetEmbedded_live by blast
  note r = SetEmbedded_result [OF o0 s]
  from r(3) have "\<not> mRefCount o0 + cEmbedded < cEmbedded"
    by (simp add: word_less_nat_alt)
  with r(2) show "SetEmbedded h1 this = Inl AssertFailed"
    by (simp add: SetEmbedded_eq)
next
  assume a: "h this = Some obj \<and> SetEmbedded h this = Inr h1 \<and> k \<le> unat (mRefCount obj)"
  then have o: "h this = Some obj" and s: "SetEmbedded h this = Inr h1"
    and k: "k \<le> unat (mRefCount obj)"
    by simp_all
  note r = SetEmbedded_result [OF o s]
  let ?obj1 = "obj\<lparr>mRefCount := mRefCount obj + cEmbedded\<rparr>"
  have l: "h1 this = Some ?obj1" using r(2) by simp
  have "unat cEmbedded + k \<le> unat (mRefCount ?obj1)"
    using r(3) k by simp
  from run_Release_above_bias [of h1 this ?obj1 k T_dtor, OF l this] obtain obj' where
    rn: "run T_dtor h1 this (replicate k OpRelease) = Inr (h1(this \<mapsto> obj'))"
    and c: "unat (mRefCount obj') = unat (mRefCount ?obj1) - k"
    by blast
  from c r(3) k have ge: "unat cEmbedded \<le> unat (mRefCount obj')"
    by simp
  then have le: "cEmbedded \<le> mRefCount obj'"
    by (simp add: word_le_nat_alt)
  from ge have nz: "mRefCount obj' \<noteq> 0"
    by (auto simp: cEmbedded_unat)
  from le have "\<not> mRefCount obj' < cEmbedded"
    by simp
  then have "SetEmbedded (h1(this \<mapsto> obj')) this = Inl AssertFailed"
    by (simp add: SetEmbedded_eq)
  with rn le nz
  show "\<exists>obj'. run T_dtor h1 this (replicate k OpRelease) = Inr (h1(this \<mapsto> obj'))
           \<and> cEmbedded \<le> mRefCount obj' \<and> mRefCount obj' \<noteq> 0
           \<and> SetEmbedded (h1(this \<mapsto> obj')) this = Inl AssertFailed"
    by blast
qed

theorem SetEmbedded_adds_bias_once_witness:
  "SetEmbedded (Map.empty(1 \<mapsto> \<lparr>mRefCount = 2\<rparr>)) 1
     = Inr (Map.empty(1 \<mapsto> \<lparr>mRefCount = cEmbedded + 2\<rparr>))
   \<and> SetEmbedded (Map.empty(1 \<mapsto> \<lparr>mRefCount = cEmbedded + 2\<rparr>)) 1 = Inl AssertFailed
   \<and> run (\<lambda>h this. Inr h) (Map.empty(1 \<mapsto> \<lparr>mRefCount = cEmbedded + 2\<rparr>)) 1
         (replicate 2 OpRelease)
     = Inr (Map.empty(1 \<mapsto> \<lparr>mRefCount = cEmbedded\<rparr>))
   \<and> SetEmbedded (Map.empty(1 \<mapsto> \<lparr>mRefCount = cEmbedded\<rparr>)) 1 = Inl AssertFailed"
proof -
  have s: "SetEmbedded (Map.empty(1 \<mapsto> \<lparr>mRefCount = 2\<rparr>)) 1
     = Inr (Map.empty(1 \<mapsto> \<lparr>mRefCount = cEmbedded + 2\<rparr>))"
    by (simp add: SetEmbedded_eq cEmbedded_def)
  have two: "replicate 2 OpRelease = [OpRelease, OpRelease]"
    by (simp add: numeral_2_eq_2)
  have r: "run (\<lambda>h this. Inr h) (Map.empty(1 \<mapsto> \<lparr>mRefCount = cEmbedded + 2\<rparr>)) 1
             [OpRelease, OpRelease]
     = Inr (Map.empty(1 \<mapsto> \<lparr>mRefCount = cEmbedded\<rparr>))"
    by (simp add: RefTarget_Release_eq cEmbedded_def)
  from SetEmbedded_adds_bias_once
         [of "Map.empty(1 \<mapsto> \<lparr>mRefCount = 2\<rparr>)" 1 "\<lparr>mRefCount = 2\<rparr>"
             "Map.empty(1 \<mapsto> \<lparr>mRefCount = cEmbedded + 2\<rparr>)" 2 "\<lambda>h this. Inr h"]
       s r two
  show ?thesis by (simp add: SetEmbedded_eq)
qed

lemma sub_of_nat_eq:
  fixes c d :: uint32
  assumes "k \<le> unat c" and "unat d = unat c - k"
  shows "d = c - of_nat k"
proof -
  from assms(1) have uk: "unat (of_nat k :: uint32) = k"
    by (rule le_unat_uoi)
  with assms(1) have "of_nat k \<le> c"
    by (simp add: word_le_nat_alt)
  then have "unat (c - of_nat k) = unat c - k"
    by (simp add: unat_sub uk)
  with assms(2) show ?thesis
    by (simp add: word_unat_eq_iff)
qed

text \<open>
  C7. Let the counter of a live object read \<open>n\<close> (its net increments so far) when
  \<open>SetEmbedded()\<close> is called and returns. Then every sequence of \<open>k \<le> n\<close> calls of
  \<open>Release()\<close> returns, the object is still in the store with the counter
  \<open>n + cEmbedded - k\<close>, which is not 0, and no other object has changed. As this
  holds for every \<open>k \<le> n\<close>, no call of such a sequence reaches the destruction.
\<close>

theorem embedded_survives_balanced_releases:
  assumes "GetRefCount h a = Inr n" and "SetEmbedded h a = Inr h1" and "k \<le> unat n"
  shows "\<exists>h2. run T_dtor h1 a (replicate k OpRelease) = Inr h2
           \<and> GetRefCount h2 a = Inr (n + cEmbedded - of_nat k)
           \<and> n + cEmbedded - of_nat k \<noteq> 0
           \<and> (\<forall>b. b \<noteq> a \<longrightarrow> h2 b = h b)"
proof -
  from assms(1) obtain obj where o: "h a = Some obj" and n: "mRefCount obj = n"
    by (auto simp: GetRefCount_def split: option.splits)
  note r = SetEmbedded_result [OF o assms(2)]
  let ?obj1 = "obj\<lparr>mRefCount := n + cEmbedded\<rparr>"
  have l: "h1 a = Some ?obj1" using r(2) n by simp
  have u: "unat (n + cEmbedded) = unat n + unat cEmbedded"
    using r(3) n by simp
  then have b: "unat cEmbedded + k \<le> unat (mRefCount ?obj1)"
    using assms(3) by simp
  from run_Release_above_bias [of h1 a ?obj1 k T_dtor, OF l b] obtain obj' where
    rn: "run T_dtor h1 a (replicate k OpRelease) = Inr (h1(a \<mapsto> obj'))"
    and c: "unat (mRefCount obj') = unat (n + cEmbedded) - k"
    by auto
  have "k \<le> unat (n + cEmbedded)" using u assms(3) by simp
  from sub_of_nat_eq [OF this c] have e: "mRefCount obj' = n + cEmbedded - of_nat k" .
  from c u assms(3) have "unat (mRefCount obj') \<noteq> 0"
    by (simp add: cEmbedded_unat)
  then have nz: "mRefCount obj' \<noteq> 0"
    by auto
  have "GetRefCount (h1(a \<mapsto> obj')) a = Inr (n + cEmbedded - of_nat k)"
    using e by (simp add: GetRefCount_def)
  moreover have "\<forall>b. b \<noteq> a \<longrightarrow> (h1(a \<mapsto> obj')) b = h b"
    using r(2) by simp
  ultimately show ?thesis using rn nz e by auto
qed

theorem embedded_survives_balanced_releases_witness:
  "run (\<lambda>h this. Inr h) (Map.empty(1 \<mapsto> \<lparr>mRefCount = cEmbedded + 2\<rparr>, 4 \<mapsto> \<lparr>mRefCount = 1\<rparr>)) 1
       (replicate 2 OpRelease)
     = Inr (Map.empty(1 \<mapsto> \<lparr>mRefCount = cEmbedded\<rparr>, 4 \<mapsto> \<lparr>mRefCount = 1\<rparr>))
   \<and> GetRefCount (Map.empty(1 \<mapsto> \<lparr>mRefCount = cEmbedded\<rparr>, 4 \<mapsto> \<lparr>mRefCount = 1\<rparr>)) 1
     = Inr (2 + cEmbedded - of_nat 2)"
proof -
  let ?h = "Map.empty(1 \<mapsto> \<lparr>mRefCount = 2\<rparr>, 4 \<mapsto> \<lparr>mRefCount = 1\<rparr>)"
  let ?h1 = "Map.empty(1 \<mapsto> \<lparr>mRefCount = cEmbedded + 2\<rparr>, 4 \<mapsto> \<lparr>mRefCount = 1\<rparr>)"
  have g: "GetRefCount ?h 1 = Inr 2"
    by (simp add: GetRefCount_def)
  have s: "SetEmbedded ?h 1 = Inr ?h1"
    by (simp add: SetEmbedded_eq cEmbedded_def fun_upd_twist)
  have two: "replicate 2 OpRelease = [OpRelease, OpRelease]"
    by (simp add: numeral_2_eq_2)
  have r: "run (\<lambda>h this. Inr h) ?h1 1 [OpRelease, OpRelease]
     = Inr (Map.empty(1 \<mapsto> \<lparr>mRefCount = cEmbedded\<rparr>, 4 \<mapsto> \<lparr>mRefCount = 1\<rparr>))"
    by (simp add: RefTarget_Release_eq cEmbedded_def fun_upd_twist)
  have k: "(2::nat) \<le> unat (2 :: uint32)" by simp
  from embedded_survives_balanced_releases [OF g s k, of "\<lambda>h this. Inr h"] r two
  show ?thesis by (simp add: GetRefCount_def)
qed

text \<open>
  C8. For \<open>Ref\<close> and for \<open>RefConst\<close>, handles holding the same pointer compare equal
  and hash equal, whatever the pointer hash is; comparison with a raw pointer
  compares the stored pointer; a handle holding \<open>nullptr\<close>, such as a default
  constructed one or one constructed from \<open>nullptr\<close>, equals \<open>nullptr\<close> and differs
  from every other pointer; and each \<open>!=\<close> is the negation of the matching \<open>==\<close>.
\<close>

theorem handle_equality_and_hash_by_pointer:
  "(Ref.mPtr a = Ref.mPtr b \<longrightarrow> Ref_eq a b \<and> hash_Ref H a = hash_Ref H b)
   \<and> (RefConst.mPtr c = RefConst.mPtr d \<longrightarrow>
        RefConst_eq c d \<and> hash_RefConst HC c = hash_RefConst HC d)
   \<and> (RefConst.mPtr c = Ref.mPtr a \<longrightarrow> RefConst_eq_Ref c a)
   \<and> Ref_eq_ptr a p = (Ref.mPtr a = p)
   \<and> RefConst_eq_ptr c p = (RefConst.mPtr c = p)
   \<and> (Ref.mPtr a = None \<longrightarrow> Ref_eq_ptr a None \<and> (\<forall>q. \<not> Ref_eq_ptr a (Some q)))
   \<and> (RefConst.mPtr c = None \<longrightarrow>
        RefConst_eq_ptr c None \<and> (\<forall>q. \<not> RefConst_eq_ptr c (Some q)))
   \<and> Ref.mPtr Ref_ctor = None \<and> Ref_ctor_ptr h None = Inr (h, Ref_ctor)
   \<and> RefConst.mPtr RefConst_ctor = None \<and> RefConst_ctor_ptr h None = Inr (h, RefConst_ctor)
   \<and> Ref_ne_ptr a p = (\<not> Ref_eq_ptr a p)
   \<and> Ref_ne a b = (\<not> Ref_eq a b)
   \<and> RefConst_ne_ptr c p = (\<not> RefConst_eq_ptr c p)
   \<and> RefConst_ne c d = (\<not> RefConst_eq c d)
   \<and> RefConst_ne_Ref c a = (\<not> RefConst_eq_Ref c a)"
  by (simp add: Ref_eq_def Ref_eq_ptr_def Ref_ne_def Ref_ne_ptr_def hash_Ref_def Ref_GetPtr_def
      RefConst_eq_def RefConst_eq_ptr_def RefConst_eq_Ref_def RefConst_ne_def RefConst_ne_ptr_def
      RefConst_ne_Ref_def hash_RefConst_def RefConst_GetPtr_def
      Ref_ctor_def Ref_ctor_ptr_def Ref_AddRef_def
      RefConst_ctor_def RefConst_ctor_ptr_def RefConst_AddRef_def)

theorem handle_equality_and_hash_by_pointer_witness:
  "Ref_eq \<lparr>Ref.mPtr = Some 3\<rparr> \<lparr>Ref.mPtr = Some 3\<rparr>
   \<and> hash_Ref (\<lambda>p. case p of None \<Rightarrow> 0 | Some x \<Rightarrow> x + 1) \<lparr>Ref.mPtr = Some 3\<rparr> = (4::nat)
   \<and> RefConst_eq \<lparr>RefConst.mPtr = Some 3\<rparr> \<lparr>RefConst.mPtr = Some 3\<rparr>
   \<and> RefConst_eq_Ref \<lparr>RefConst.mPtr = Some 3\<rparr> \<lparr>Ref.mPtr = Some 3\<rparr>
   \<and> Ref_eq_ptr \<lparr>Ref.mPtr = None\<rparr> None
   \<and> \<not> Ref_eq_ptr \<lparr>Ref.mPtr = None\<rparr> (Some 3)
   \<and> RefConst_eq_ptr \<lparr>RefConst.mPtr = None\<rparr> None
   \<and> \<not> RefConst_eq_ptr \<lparr>RefConst.mPtr = None\<rparr> (Some 3)"
  using handle_equality_and_hash_by_pointer
          [where a = "\<lparr>Ref.mPtr = Some 3\<rparr>" and b = "\<lparr>Ref.mPtr = Some 3\<rparr>"
             and H = "\<lambda>p. case p of None \<Rightarrow> 0 | Some x \<Rightarrow> x + 1"
             and c = "\<lparr>RefConst.mPtr = Some 3\<rparr>" and d = "\<lparr>RefConst.mPtr = Some 3\<rparr>"
             and HC = "\<lambda>p. case p of None \<Rightarrow> (0::nat) | Some x \<Rightarrow> x + 1"
             and p = "Some 3" and h = Map.empty]
        handle_equality_and_hash_by_pointer
          [where a = "\<lparr>Ref.mPtr = None\<rparr>" and b = "\<lparr>Ref.mPtr = None\<rparr>"
             and H = "\<lambda>p. case p of None \<Rightarrow> (0::nat) | Some x \<Rightarrow> x + 1"
             and c = "\<lparr>RefConst.mPtr = None\<rparr>" and d = "\<lparr>RefConst.mPtr = None\<rparr>"
             and HC = "\<lambda>p. case p of None \<Rightarrow> (0::nat) | Some x \<Rightarrow> x + 1"
             and p = "Some 3" and h = Map.empty]
  by (simp add: hash_Ref_def Ref_GetPtr_def)

text \<open>
  C5. Assigning to a handle the pointer it already holds, from a raw pointer or from
  a handle of either kind, by copy or by move, returns the store and the handle as
  they were, whatever the destructor of \<open>T\<close> does. The store is unchanged also when
  the counter of the target is 1, where a \<open>Release\<close> would have destroyed the object:
  neither \<open>Release\<close> nor \<open>AddRef\<close> runs.
\<close>

theorem reassigning_held_pointer_is_noop:
  "(Ref.mPtr this = p \<longrightarrow> Ref_assign_ptr T_dtor h this p = Inr (h, this))
   \<and> (Ref.mPtr r = Ref.mPtr this \<longrightarrow> Ref_assign T_dtor h this r = Inr (h, this))
   \<and> (Ref.mPtr r = Ref.mPtr this \<longrightarrow> Ref_move_assign T_dtor h this r = Inr (h, this, r))
   \<and> (RefConst.mPtr cthis = p \<longrightarrow> RefConst_assign_ptr T_dtor h cthis p = Inr (h, cthis))
   \<and> (RefConst.mPtr c = RefConst.mPtr cthis \<longrightarrow> RefConst_assign T_dtor h cthis c = Inr (h, cthis))
   \<and> (RefConst.mPtr c = RefConst.mPtr cthis \<longrightarrow>
        RefConst_move_assign T_dtor h cthis c = Inr (h, cthis, c))
   \<and> (Ref.mPtr r = RefConst.mPtr cthis \<longrightarrow> RefConst_assign_Ref T_dtor h cthis r = Inr (h, cthis))
   \<and> (Ref.mPtr r = RefConst.mPtr cthis \<longrightarrow>
        RefConst_move_assign_Ref T_dtor h cthis r = Inr (h, cthis, r))"
  by (simp add: Ref_assign_ptr_def Ref_assign_def Ref_move_assign_def
      RefConst_assign_ptr_def RefConst_assign_def RefConst_move_assign_def
      RefConst_assign_Ref_def RefConst_move_assign_Ref_def)

theorem reassigning_held_pointer_is_noop_witness:
  "Ref_assign_ptr (\<lambda>h this. Inr h) (Map.empty(1 \<mapsto> \<lparr>mRefCount = 1\<rparr>)) \<lparr>Ref.mPtr = Some 1\<rparr> (Some 1)
     = Inr (Map.empty(1 \<mapsto> \<lparr>mRefCount = 1\<rparr>), \<lparr>Ref.mPtr = Some 1\<rparr>)
   \<and> Ref_assign (\<lambda>h this. Inr h) (Map.empty(1 \<mapsto> \<lparr>mRefCount = 1\<rparr>)) \<lparr>Ref.mPtr = Some 1\<rparr> \<lparr>Ref.mPtr = Some 1\<rparr>
     = Inr (Map.empty(1 \<mapsto> \<lparr>mRefCount = 1\<rparr>), \<lparr>Ref.mPtr = Some 1\<rparr>)
   \<and> RefConst_assign_ptr (\<lambda>h this. Inr h) (Map.empty(1 \<mapsto> \<lparr>mRefCount = 1\<rparr>)) \<lparr>RefConst.mPtr = Some 1\<rparr> (Some 1)
     = Inr (Map.empty(1 \<mapsto> \<lparr>mRefCount = 1\<rparr>), \<lparr>RefConst.mPtr = Some 1\<rparr>)
   \<and> RefConst_assign (\<lambda>h this. Inr h) (Map.empty(1 \<mapsto> \<lparr>mRefCount = 1\<rparr>))
         \<lparr>RefConst.mPtr = Some 1\<rparr> \<lparr>RefConst.mPtr = Some 1\<rparr>
     = Inr (Map.empty(1 \<mapsto> \<lparr>mRefCount = 1\<rparr>), \<lparr>RefConst.mPtr = Some 1\<rparr>)
   \<and> RefConst_assign_Ref (\<lambda>h this. Inr h) (Map.empty(1 \<mapsto> \<lparr>mRefCount = 1\<rparr>))
         \<lparr>RefConst.mPtr = Some 1\<rparr> \<lparr>Ref.mPtr = Some 1\<rparr>
     = Inr (Map.empty(1 \<mapsto> \<lparr>mRefCount = 1\<rparr>), \<lparr>RefConst.mPtr = Some 1\<rparr>)"
  using reassigning_held_pointer_is_noop
          [where this = "\<lparr>Ref.mPtr = Some 1\<rparr>" and p = "Some 1"
             and T_dtor = "\<lambda>h this. Inr h" and h = "Map.empty(1 \<mapsto> \<lparr>mRefCount = 1\<rparr>)"
             and r = "\<lparr>Ref.mPtr = Some 1\<rparr>" and cthis = "\<lparr>RefConst.mPtr = Some 1\<rparr>"
             and c = "\<lparr>RefConst.mPtr = Some 1\<rparr>"]
  by simp












end
